theory Spec2Isabelle
  imports Main "HOL-Library.AList"
begin

section \<open>Semantic versions\<close>

text \<open>
  \<^verbatim>\<open>library_manager.py\<close> imports \<^verbatim>\<open>Version\<close> from the third-party package
  \<^verbatim>\<open>semver\<close> (release line 3) and uses three of its operations:
  \<^verbatim>\<open>Version.parse\<close>, \<^verbatim>\<open>Version.is_valid\<close> and the comparison \<^verbatim>\<open>></\<close>.
  They are modelled here on ASCII strings.  A version is the five fields of
  semver 2.0.0; the pre-release and build parts are kept as the text after
  \<^verbatim>\<open>-\<close> and \<^verbatim>\<open>+\<close>, as the package keeps them.
\<close>

record version =
  major :: nat
  minor :: nat
  patch :: nat
  prerelease :: "string option"
  build :: "string option"

definition is_digit :: "char \<Rightarrow> bool" where
  "is_digit c \<longleftrightarrow> c \<in> set ''0123456789''"

definition is_ident_char :: "char \<Rightarrow> bool" where
  "is_ident_char c \<longleftrightarrow>
     c \<in> set ''0123456789abcdefghijklmnopqrstuvwxyzABCDEFGHIJKLMNOPQRSTUVWXYZ-''"

text \<open>The value of a decimal digit: its position among the ten digits.\<close>

definition digit_val :: "char \<Rightarrow> nat" where
  "digit_val c = length (takeWhile (\<lambda>d. d \<noteq> c) ''0123456789'')"

text \<open>Python's \<^verbatim>\<open>int(s)\<close> on a string of decimal digits.\<close>

definition int_of_digits :: "string \<Rightarrow> nat" where
  "int_of_digits s = foldl (\<lambda>n c. 10 * n + digit_val c) 0 s"

text \<open>Python's \<^verbatim>\<open>s.split(sep)\<close> for a one-character separator: never empty.\<close>

fun split_on :: "char \<Rightarrow> string \<Rightarrow> string list" where
  "split_on sep [] = [[]]"
| "split_on sep (c # cs) =
     (if c = sep then [] # split_on sep cs
      else (case split_on sep cs of
              [] \<Rightarrow> [[c]]
            | p # ps \<Rightarrow> (c # p) # ps))"

text \<open>The text before the first \<open>sep\<close>, and the text after it when there is one.\<close>

fun break_at :: "char \<Rightarrow> string \<Rightarrow> string \<times> string option" where
  "break_at sep [] = ([], None)"
| "break_at sep (c # cs) =
     (if c = sep then ([], Some cs)
      else (case break_at sep cs of (a, b) \<Rightarrow> (c # a, b)))"

text \<open>
  The three identifier shapes of the package's regular expression:
  \<^verbatim>\<open>0|[1-9]\d*\<close> for major, minor and patch,
  \<^verbatim>\<open>0|[1-9]\d*|\d*[a-zA-Z-][0-9a-zA-Z-]*\<close> for a pre-release identifier and
  \<^verbatim>\<open>[0-9a-zA-Z-]+\<close> for a build identifier.
\<close>

definition is_numeric :: "string \<Rightarrow> bool" where
  "is_numeric s \<longleftrightarrow>
     s \<noteq> [] \<and> list_all is_digit s \<and> (s = ''0'' \<or> hd s \<noteq> CHR ''0'')"

definition is_prerelease_ident :: "string \<Rightarrow> bool" where
  "is_prerelease_ident s \<longleftrightarrow>
     s \<noteq> [] \<and> list_all is_ident_char s \<and> (is_numeric s \<or> \<not> list_all is_digit s)"

definition is_build_ident :: "string \<Rightarrow> bool" where
  "is_build_ident s \<longleftrightarrow> s \<noteq> [] \<and> list_all is_ident_char s"

text \<open>
  The expression ends in \<^verbatim>\<open>$\<close>, which in Python also matches just before one
  final line feed; the groups never contain it.
\<close>

definition strip_final_newline :: "string \<Rightarrow> string" where
  "strip_final_newline s = (if s \<noteq> [] \<and> last s = CHR 0x0A then butlast s else s)"

text \<open>
  \<^verbatim>\<open>Version.parse(s)\<close>: \<open>None\<close> stands for the \<^verbatim>\<open>ValueError\<close> it raises when the
  expression does not match.
\<close>

definition Version_parse :: "string \<Rightarrow> version option" where
  "Version_parse s =
     (case break_at CHR ''+'' (strip_final_newline s) of
        (main, bld) \<Rightarrow>
          (case break_at CHR ''-'' main of
             (core, pre) \<Rightarrow>
               (case split_on CHR ''.'' core of
                  [a, b, c] \<Rightarrow>
                    (if is_numeric a \<and> is_numeric b \<and> is_numeric c
                        \<and> (case pre of
                              None \<Rightarrow> True
                            | Some p \<Rightarrow> list_all is_prerelease_ident (split_on CHR ''.'' p))
                        \<and> (case bld of
                              None \<Rightarrow> True
                            | Some b \<Rightarrow> list_all is_build_ident (split_on CHR ''.'' b))
                     then Some \<lparr>major = int_of_digits a, minor = int_of_digits b,
                                patch = int_of_digits c, prerelease = pre, build = bld\<rparr>
                     else None)
                | _ \<Rightarrow> None)))"

text \<open>\<^verbatim>\<open>Version.is_valid(s)\<close>: parse, and report whether \<^verbatim>\<open>ValueError\<close> was raised.\<close>

definition Version_is_valid :: "string \<Rightarrow> bool" where
  "Version_is_valid s \<longleftrightarrow> Version_parse s \<noteq> None"

text \<open>The package's three-way comparison \<^verbatim>\<open>_cmp(a, b) = (a > b) - (a < b)\<close>.\<close>

definition cmp_nat :: "nat \<Rightarrow> nat \<Rightarrow> int" where
  "cmp_nat a b = (if a < b then - 1 else if b < a then 1 else 0)"

text \<open>Python compares strings by code point, position by position.\<close>

fun cmp_str :: "string \<Rightarrow> string \<Rightarrow> int" where
  "cmp_str [] [] = 0"
| "cmp_str [] (y # ys) = - 1"
| "cmp_str (x # xs) [] = 1"
| "cmp_str (x # xs) (y # ys) =
     (if (of_char x :: nat) < of_char y then - 1
      else if (of_char y :: nat) < of_char x then 1
      else cmp_str xs ys)"

text \<open>
  A pre-release string is split at the dots; a part made of digits only is
  compared as a number and sorts before every other part.
\<close>

datatype prerelease_part = PInt nat | PStr string

definition to_part :: "string \<Rightarrow> prerelease_part" where
  "to_part x = (if x \<noteq> [] \<and> list_all is_digit x then PInt (int_of_digits x) else PStr x)"

fun cmp_prerelease_tag :: "prerelease_part \<Rightarrow> prerelease_part \<Rightarrow> int" where
  "cmp_prerelease_tag (PInt a) (PInt b) = cmp_nat a b"
| "cmp_prerelease_tag (PInt a) (PStr b) = - 1"
| "cmp_prerelease_tag (PStr a) (PInt b) = 1"
| "cmp_prerelease_tag (PStr a) (PStr b) = cmp_str a b"

text \<open>
  The loop over \<^verbatim>\<open>zip(a_parts, b_parts)\<close>: the first comparison that is not 0,
  and 0 when the shorter list is used up.
\<close>

fun cmp_parts :: "prerelease_part list \<Rightarrow> prerelease_part list \<Rightarrow> int" where
  "cmp_parts (a # as) (b # bs) =
     (if cmp_prerelease_tag a b \<noteq> 0 then cmp_prerelease_tag a b else cmp_parts as bs)"
| "cmp_parts _ _ = 0"

text \<open>
  \<^verbatim>\<open>_nat_cmp(a, b)\<close>; when no pair of parts differs, the package compares the
  lengths of the two strings.
\<close>

definition nat_cmp :: "string \<Rightarrow> string \<Rightarrow> int" where
  "nat_cmp a b =
     (let r = cmp_parts (map to_part (split_on CHR ''.'' a)) (map to_part (split_on CHR ''.'' b))
      in if r \<noteq> 0 then r else cmp_nat (length a) (length b))"

definition cmp_core :: "version \<Rightarrow> version \<Rightarrow> int" where
  "cmp_core v w =
     (if cmp_nat (major v) (major w) \<noteq> 0 then cmp_nat (major v) (major w)
      else if cmp_nat (minor v) (minor w) \<noteq> 0 then cmp_nat (minor v) (minor w)
      else cmp_nat (patch v) (patch w))"

text \<open>Python's \<^verbatim>\<open>x or ""\<close> and \<^verbatim>\<open>not x\<close> on an optional string.\<close>

definition or_empty :: "string option \<Rightarrow> string" where
  "or_empty x = (case x of None \<Rightarrow> [] | Some s \<Rightarrow> s)"

definition falsy :: "string option \<Rightarrow> bool" where
  "falsy x \<longleftrightarrow> or_empty x = []"

text \<open>
  \<^verbatim>\<open>Version.compare\<close>: major, minor and patch first; when they agree, a
  version without a pre-release is the greater one; build metadata is ignored.
\<close>

definition Version_compare :: "version \<Rightarrow> version \<Rightarrow> int" where
  "Version_compare v w =
     (let x = cmp_core v w in
      if x \<noteq> 0 then x
      else let rccmp = nat_cmp (or_empty (prerelease v)) (or_empty (prerelease w)) in
           if rccmp = 0 then 0
           else if falsy (prerelease v) then 1
           else if falsy (prerelease w) then - 1
           else rccmp)"

text \<open>\<^verbatim>\<open>v > w\<close> on versions.\<close>

definition Version_gt :: "version \<Rightarrow> version \<Rightarrow> bool" where
  "Version_gt v w \<longleftrightarrow> 0 < Version_compare v w"

section \<open>Data model\<close>

text \<open>
  The value \<^verbatim>\<open>json.loads\<close> returns.  A \<open>JDict\<close> lists the keys of the Python
  dictionary once each; \<open>d[k]\<close> is \<open>map_of\<close> on that list.  Numbers play no role
  in the manager and are kept as integers.
\<close>

datatype json =
    JNull
  | JBool bool
  | JInt int
  | JStr string
  | JList "json list"
  | JDict "(string \<times> json) list"

text \<open>
  What a file or an archive member holds, up to decoding: either UTF-8 text
  that \<^verbatim>\<open>json.loads\<close> accepts, with the value it denotes, or any other bytes
  (undecodable, or not JSON).  \<^verbatim>\<open>json.dump\<close> of a value writes the former.
\<close>

datatype content = JsonText json | OtherBytes string

text \<open>
  Modelled from the spec: the class \<^verbatim>\<open>DownloadableLibraryInfo\<close> of
  \<^verbatim>\<open>voicevox_engine/model.py\<close>, which is not among the sources.  The
  spec's PackageDescriptor has the identity \<open>uuid\<close>, a string, and further
  display fields (name, version, speakers); the manager reads \<open>uuid\<close> only.
\<close>

record DownloadableLibraryInfo =
  uuid :: string
  other_fields :: "(string \<times> json) list"

text \<open>\<^verbatim>\<open>downloadable_library.dict()\<close>.\<close>

definition dict :: "DownloadableLibraryInfo \<Rightarrow> json" where
  "dict d = JDict ((''uuid'', JStr (uuid d)) # other_fields d)"

text \<open>
  Modelled from the spec: the class \<^verbatim>\<open>InstalledLibraryInfo\<close> of the same
  missing module; the spec's InstalledMetadata is the descriptor's fields plus
  the boolean \<open>uninstallable\<close>.
\<close>

record InstalledLibraryInfo = DownloadableLibraryInfo +
  uninstallable :: bool

text \<open>
  Everything the two operations can raise.  The manager's own errors are
  \<^verbatim>\<open>HTTPException(status_code, detail)\<close>; the others are Python's, passed on
  uncaught.  The messages are Japanese f-strings; \<open>detail\<close> has one constructor
  for each distinct f-string of the source, applied to the values the f-string
  interpolates, so that two details are equal exactly when the same f-string
  was filled with the same values:
  \<^item> \<open>LibraryNotFound\<close>: line 131, the library was not found;
  \<^item> \<open>InvalidFile\<close>: line 145 and, with the same text, line 151, the library
    is an invalid file;
  \<^item> \<open>ManifestMissing\<close>: line 163, no \<^verbatim>\<open>vvlib_manifest.json\<close> in the library;
  \<^item> \<open>ManifestBroken\<close>: line 168, the \<^verbatim>\<open>vvlib_manifest.json\<close> is invalid;
  \<^item> \<open>ManifestInvalidData\<close>: line 177, the manifest contains invalid data;
  \<^item> \<open>VersionInvalid\<close>: line 183, the \<^verbatim>\<open>version\<close> is invalid;
  \<^item> \<open>ManifestVersionInvalid\<close>: line 194, the \<^verbatim>\<open>manifest_version\<close> is invalid;
  \<^item> \<open>Unsupported\<close>: line 198, the library is not supported;
  \<^item> \<open>WrongEngine\<close>: line 205, the library is not for this engine (library
    id and engine name);
  \<^item> \<open>NotInstalled\<close>: line 225, the library is not installed;
  \<^item> \<open>NotUninstallable\<close>: line 231, the library cannot be uninstalled;
  \<^item> \<open>DeleteFailed\<close>: line 239, deleting the library failed.
\<close>

datatype detail =
    LibraryNotFound string
  | InvalidFile string
  | ManifestMissing string
  | ManifestBroken string
  | ManifestInvalidData string
  | VersionInvalid string
  | ManifestVersionInvalid string
  | Unsupported string
  | WrongEngine string string
  | NotInstalled string
  | NotUninstallable string
  | DeleteFailed string

datatype exn =
    HTTPException nat detail
  | FileExistsError string
  | FileNotFoundError string
  | JSONDecodeError string
  | KeyError string
  | TypeError
  | ValidationError
  | ValueError

text \<open>
  \<^verbatim>\<open>InstalledLibraryInfo(**info, uninstallable=flag)\<close>.  Python raises
  \<^verbatim>\<open>TypeError\<close> when \<open>info\<close> is not a mapping and when it already has the key
  \<^verbatim>\<open>uninstallable\<close> (the keyword would be given twice); the class then
  validates the fields, of which the spec names \<open>uuid\<close>.
\<close>

definition InstalledLibraryInfo_make :: "json \<Rightarrow> bool \<Rightarrow> exn + InstalledLibraryInfo" where
  "InstalledLibraryInfo_make info flag =
     (case info of
        JDict kvs \<Rightarrow>
          if map_of kvs ''uninstallable'' \<noteq> None then Inl TypeError
          else (case map_of kvs ''uuid'' of
                  Some (JStr u) \<Rightarrow>
                    Inr \<lparr>uuid = u, other_fields = AList.delete ''uuid'' kvs, uninstallable = flag\<rparr>
                | _ \<Rightarrow> Inl ValidationError)
      | _ \<Rightarrow> Inl TypeError)"

subsection \<open>The installation root\<close>

text \<open>
  \<^verbatim>\<open>library_root_dir\<close> is the state.  It is the list of its immediate entries
  in the order \<^verbatim>\<open>iterdir()\<close> yields them; an entry is a regular file or a
  directory.  A package directory is a map from the relative path of a file
  below it to what the file holds, so a path names at most one file.  The flag
  of a directory says whether the operating system lets \<^verbatim>\<open>shutil.rmtree\<close>
  remove it (permissions, files in use); nothing else depends on it.  Names and
  library ids are single path components.
\<close>

datatype node =
    RegularFile content
  | Directory bool "string \<rightharpoonup> content"

type_synonym library_root = "(string \<times> node) list"

definition INFO_FILE :: string where
  "INFO_FILE = ''metas.json''"

text \<open>
  \<^verbatim>\<open>(library_root_dir / name).mkdir(exist_ok=True)\<close>: a directory that is there
  is left alone; a regular file of that name is \<^verbatim>\<open>FileExistsError\<close>.
\<close>

definition mkdir_exist_ok :: "string \<Rightarrow> library_root \<Rightarrow> exn + library_root" where
  "mkdir_exist_ok name root =
     (case map_of root name of
        None \<Rightarrow> Inr (root @ [(name, Directory True Map.empty)])
      | Some (Directory _ _) \<Rightarrow> Inr root
      | Some (RegularFile _) \<Rightarrow> Inl (FileExistsError name))"

text \<open>
  \<^verbatim>\<open>open(library_root_dir / name / path, "w")\<close> and writing \<open>c\<close>: the file is
  created or overwritten.
\<close>

definition write_file :: "string \<Rightarrow> string \<Rightarrow> content \<Rightarrow> library_root \<Rightarrow> exn + library_root" where
  "write_file name path c root =
     (case map_of root name of
        Some (Directory del fs) \<Rightarrow>
          Inr (AList.update name (Directory del (fs(path \<mapsto> c))) root)
      | _ \<Rightarrow> Inl (FileNotFoundError name))"

text \<open>What the file \<open>path\<close> of the package directory \<open>name\<close> holds, if it exists.\<close>

definition lookup_file :: "library_root \<Rightarrow> string \<Rightarrow> string \<Rightarrow> content option" where
  "lookup_file root name path =
     (case map_of root name of
        Some (Directory _ fs) \<Rightarrow> fs path
      | _ \<Rightarrow> None)"

subsection \<open>The archive\<close>

text \<open>
  The uploaded file, as the three calls of \<^verbatim>\<open>zipfile\<close> see it:
  \<^verbatim>\<open>is_zipfile(file)\<close>, \<^verbatim>\<open>testzip()\<close> (the name of the first member whose
  check fails, if any) and the members in archive order, each with its path
  and what it holds.
\<close>

record vvlib_file =
  is_zipfile :: bool
  testzip :: "string option"
  members :: "(string \<times> content) list"

text \<open>
  \<^verbatim>\<open>zf.extractall(library_dir)\<close>: every member is written at its path, in
  archive order, over whatever is there.  Members are files; a member that is
  a directory, and a path at which a file and a directory would collide, are
  outside this model.
\<close>

definition extract_members :: "(string \<rightharpoonup> content) \<Rightarrow> (string \<times> content) list \<Rightarrow> (string \<rightharpoonup> content)" where
  "extract_members fs ms = foldl (\<lambda>f (p, c). f(p \<mapsto> c)) fs ms"

definition extractall :: "string \<Rightarrow> (string \<times> content) list \<Rightarrow> library_root \<Rightarrow> library_root" where
  "extractall name ms root =
     (case map_of root name of
        Some (Directory del fs) \<Rightarrow>
          AList.update name (Directory del (extract_members fs ms)) root
      | _ \<Rightarrow> root)"

text \<open>
  \<^verbatim>\<open>zf.read(name)\<close>: of several members with one name the archive's directory
  keeps the last; no member is \<^verbatim>\<open>KeyError\<close>.
\<close>

definition zf_read :: "vvlib_file \<Rightarrow> string \<Rightarrow> content option" where
  "zf_read file name = map_of (rev (members file)) name"

section \<open>The library manager\<close>

text \<open>
  The fields of \<^verbatim>\<open>LibraryManager\<close> that \<^verbatim>\<open>__init__\<close> sets, apart from
  \<^verbatim>\<open>library_root_dir\<close>, whose content is passed to each operation and returned
  by it.
\<close>

record LibraryManager =
  supported_vvlib_version :: version
  engine_brand_name :: string
  engine_name :: string
  engine_uuid :: string

text \<open>
  \<^verbatim>\<open>__init__\<close>, lines 37 to 44: the supported version is parsed from the
  given string, and from \<^verbatim>\<open>"0.0.0"\<close> when none is given.
\<close>

definition LibraryManager_init ::
  "string option \<Rightarrow> string \<Rightarrow> string \<Rightarrow> string \<Rightarrow> exn + LibraryManager" where
  "LibraryManager_init supported brand_name name euuid =
     (case Version_parse (case supported of Some s \<Rightarrow> s | None \<Rightarrow> ''0.0.0'') of
        None \<Rightarrow> Inl ValueError
      | Some v \<Rightarrow>
          Inr \<lparr>supported_vvlib_version = v, engine_brand_name = brand_name,
               engine_name = name, engine_uuid = euuid\<rparr>)"

subsection \<open>\<^verbatim>\<open>installed_libraries\<close>\<close>

text \<open>
  Lines 103 to 108 for one directory: open and decode \<^verbatim>\<open>metas.json\<close>, then
  build the entry with \<^verbatim>\<open>uninstallable=True\<close>.
\<close>

definition load_info :: "string \<Rightarrow> (string \<rightharpoonup> content) \<Rightarrow> exn + InstalledLibraryInfo" where
  "load_info library_uuid fs =
     (case fs INFO_FILE of
        None \<Rightarrow> Inl (FileNotFoundError (library_uuid @ ''/'' @ INFO_FILE))
      | Some (OtherBytes _) \<Rightarrow> Inl (JSONDecodeError (library_uuid @ ''/'' @ INFO_FILE))
      | Some (JsonText info) \<Rightarrow> InstalledLibraryInfo_make info True)"

text \<open>
  The loop of lines 101 to 108 over the entries still to visit, with the
  dictionary built so far; entries that are not directories are passed over.
\<close>

fun scan_libraries ::
  "library_root \<Rightarrow> (string \<rightharpoonup> InstalledLibraryInfo) \<Rightarrow> exn + (string \<rightharpoonup> InstalledLibraryInfo)" where
  "scan_libraries [] library = Inr library"
| "scan_libraries ((name, RegularFile _) # rest) library = scan_libraries rest library"
| "scan_libraries ((name, Directory _ fs) # rest) library =
     (case load_info name fs of
        Inl e \<Rightarrow> Inl e
      | Inr info \<Rightarrow> scan_libraries rest (library(name \<mapsto> info)))"

definition installed_libraries :: "library_root \<Rightarrow> exn + (string \<rightharpoonup> InstalledLibraryInfo)" where
  "installed_libraries root = scan_libraries root Map.empty"

subsection \<open>\<^verbatim>\<open>install_library\<close>\<close>

text \<open>
  Lines 155 to 169: the member \<^verbatim>\<open>vvlib_manifest.json\<close>, decoded.  A missing
  member is the \<^verbatim>\<open>KeyError\<close> branch, anything that does not decode the other.
\<close>

definition read_manifest :: "string \<Rightarrow> vvlib_file \<Rightarrow> exn + json" where
  "read_manifest library_id file =
     (case zf_read file ''vvlib_manifest.json'' of
        None \<Rightarrow> Inl (HTTPException 422 (ManifestMissing library_id))
      | Some (OtherBytes _) \<Rightarrow> Inl (HTTPException 422 (ManifestBroken library_id))
      | Some (JsonText j) \<Rightarrow> Inr j)"

text \<open>\<open>j[k]\<close> where a string is expected.\<close>

definition get_str :: "json \<Rightarrow> string \<Rightarrow> string option" where
  "get_str j k =
     (case j of
        JDict kvs \<Rightarrow> (case map_of kvs k of Some (JStr s) \<Rightarrow> Some s | _ \<Rightarrow> None)
      | _ \<Rightarrow> None)"

text \<open>
  Modelled from the spec: \<^verbatim>\<open>VvlibManifest.validate\<close>, whose class is in the
  missing \<^verbatim>\<open>voicevox_engine/model.py\<close>.  The spec's ArchiveManifest is a
  structured document with the fields \<open>version\<close>, \<open>manifest_version\<close> and
  \<open>engine_uuid\<close>, and a document that lacks a required field is malformed.
\<close>

definition VvlibManifest_validate :: "json \<Rightarrow> bool" where
  "VvlibManifest_validate j \<longleftrightarrow>
     get_str j ''version'' \<noteq> None \<and> get_str j ''manifest_version'' \<noteq> None
     \<and> get_str j ''engine_uuid'' \<noteq> None"

text \<open>
  Lines 171 to 206: the checks on the decoded manifest, in the order of the
  source; \<open>None\<close> when all of them pass.
\<close>

definition check_manifest :: "LibraryManager \<Rightarrow> string \<Rightarrow> json \<Rightarrow> exn option" where
  "check_manifest self library_id vvlib_manifest =
     (if \<not> VvlibManifest_validate vvlib_manifest
      then Some (HTTPException 422 (ManifestInvalidData library_id))
      else
        (case (get_str vvlib_manifest ''version'',
               get_str vvlib_manifest ''manifest_version'',
               get_str vvlib_manifest ''engine_uuid'') of
           (Some v, Some mv, Some eu) \<Rightarrow>
             if \<not> Version_is_valid v
             then Some (HTTPException 422 (VersionInvalid library_id))
             else
               (case Version_parse mv of
                  None \<Rightarrow> Some (HTTPException 422 (ManifestVersionInvalid library_id))
                | Some vvlib_manifest_version \<Rightarrow>
                    if Version_gt vvlib_manifest_version (supported_vvlib_version self)
                    then Some (HTTPException 422 (Unsupported library_id))
                    else if eu \<noteq> engine_uuid self
                    then Some (HTTPException 422 (WrongEngine library_id (engine_name self)))
                    else None)
         | _ \<Rightarrow> Some TypeError))"

text \<open>
  Lines 142 to 206: every check on the uploaded file, in the order of the
  source; \<open>None\<close> when the file may be extracted.
\<close>

definition validate_file :: "LibraryManager \<Rightarrow> string \<Rightarrow> vvlib_file \<Rightarrow> exn option" where
  "validate_file self library_id file =
     (if \<not> is_zipfile file then Some (HTTPException 422 (InvalidFile library_id))
      else if testzip file \<noteq> None then Some (HTTPException 422 (InvalidFile library_id))
      else
        (case read_manifest library_id file of
           Inl e \<Rightarrow> Some e
         | Inr vvlib_manifest \<Rightarrow> check_manifest self library_id vvlib_manifest))"

text \<open>
  \<^verbatim>\<open>install_library(library_id, file)\<close>.  The second argument is what
  \<^verbatim>\<open>self.downloadable_libraries()\<close> returns.  The result is the error raised
  or the path returned (the name of the package directory below the root),
  with the root as the call leaves it.
\<close>

definition install_library ::
  "LibraryManager \<Rightarrow> DownloadableLibraryInfo list \<Rightarrow> library_root \<Rightarrow> string \<Rightarrow> vvlib_file
   \<Rightarrow> (exn + string) \<times> library_root" where
  "install_library self downloadable root library_id file =
     (case find (\<lambda>d. uuid d = library_id) downloadable of
        None \<Rightarrow> (Inl (HTTPException 404 (LibraryNotFound library_id)), root)
      | Some downloadable_library \<Rightarrow>
          (case mkdir_exist_ok library_id root of
             Inl e \<Rightarrow> (Inl e, root)
           | Inr root1 \<Rightarrow>
               (case write_file library_id INFO_FILE
                       (JsonText (dict downloadable_library)) root1 of
                  Inl e \<Rightarrow> (Inl e, root1)
                | Inr root2 \<Rightarrow>
                    (case validate_file self library_id file of
                       Some e \<Rightarrow> (Inl e, root2)
                     | None \<Rightarrow> (Inr library_id, extractall library_id (members file) root2)))))"

subsection \<open>\<^verbatim>\<open>uninstall_library\<close>\<close>

text \<open>
  \<^verbatim>\<open>shutil.rmtree(library_root_dir / name)\<close>: \<open>None\<close> when it raises, which it
  does when there is no such directory or the system refuses.
\<close>

definition rmtree :: "string \<Rightarrow> library_root \<Rightarrow> library_root option" where
  "rmtree name root =
     (case map_of root name of
        Some (Directory True _) \<Rightarrow> Some (AList.delete name root)
      | _ \<Rightarrow> None)"

text \<open>Lines 223 to 240, with the dictionary that line 222 obtained.\<close>

definition uninstall_listed ::
  "(string \<rightharpoonup> InstalledLibraryInfo) \<Rightarrow> library_root \<Rightarrow> string \<Rightarrow> (exn + unit) \<times> library_root" where
  "uninstall_listed installed root library_id =
     (case installed library_id of
        None \<Rightarrow> (Inl (HTTPException 404 (NotInstalled library_id)), root)
      | Some info \<Rightarrow>
          if \<not> uninstallable info
          then (Inl (HTTPException 403 (NotUninstallable library_id)), root)
          else
            (case rmtree library_id root of
               None \<Rightarrow> (Inl (HTTPException 500 (DeleteFailed library_id)), root)
             | Some root' \<Rightarrow> (Inr (), root')))"

text \<open>\<^verbatim>\<open>uninstall_library(library_id)\<close>; an error of the listing is passed on.\<close>

definition uninstall_library :: "library_root \<Rightarrow> string \<Rightarrow> (exn + unit) \<times> library_root" where
  "uninstall_library root library_id =
     (case installed_libraries root of
        Inl e \<Rightarrow> (Inl e, root)
      | Inr installed \<Rightarrow> uninstall_listed installed root library_id)"

subsection \<open>Example values\<close>

text \<open>
  A manager that supports manifest version 1.0.0, a catalog of one library, a
  root in which another library is installed, and archives built around a
  manifest.
\<close>

definition demo_manager :: LibraryManager where
  "demo_manager =
     \<lparr>supported_vvlib_version =
        \<lparr>major = 1, minor = 0, patch = 0, prerelease = None, build = None\<rparr>,
      engine_brand_name = ''brand'', engine_name = ''engine'', engine_uuid = ''engine-A''\<rparr>"

definition demo_catalog :: "DownloadableLibraryInfo list" where
  "demo_catalog = [\<lparr>uuid = ''lib-1'', other_fields = [(''name'', JStr ''Demo'')]\<rparr>]"

definition demo_root :: library_root where
  "demo_root =
     [(''lib-0'', Directory True [''metas.json'' \<mapsto> JsonText (JDict [(''uuid'', JStr ''lib-0'')])])]"

definition demo_manifest :: "string \<Rightarrow> string \<Rightarrow> string \<Rightarrow> json" where
  "demo_manifest v mv eu =
     JDict [(''version'', JStr v), (''manifest_version'', JStr mv), (''engine_uuid'', JStr eu)]"

definition demo_file :: "json \<Rightarrow> vvlib_file" where
  "demo_file j =
     \<lparr>is_zipfile = True, testzip = None,
      members = [(''vvlib_manifest.json'', JsonText j), (''model.bin'', OtherBytes ''weights'')]\<rparr>"

section \<open>Properties\<close>

lemmas demo_defs = demo_manager_def demo_catalog_def demo_root_def demo_manifest_def demo_file_def

lemmas semver_defs = Version_parse_def strip_final_newline_def is_numeric_def is_digit_def
  is_prerelease_ident_def is_build_ident_def is_ident_char_def int_of_digits_def digit_val_def
  Version_is_valid_def Version_gt_def Version_compare_def cmp_core_def cmp_nat_def nat_cmp_def
  or_empty_def falsy_def to_part_def

lemmas manager_defs = install_library_def validate_file_def check_manifest_def read_manifest_def
  VvlibManifest_validate_def get_str_def zf_read_def mkdir_exist_ok_def write_file_def
  extractall_def extract_members_def INFO_FILE_def dict_def lookup_file_def

subsection \<open>The steps of an installation\<close>

lemma mkdir_exist_ok_directory:
  assumes "mkdir_exist_ok name root = Inr root1"
  shows "\<exists>del fs. map_of root1 name = Some (Directory del fs)"
  using assms by (auto simp: mkdir_exist_ok_def map_add_def split: option.splits node.splits)

lemma mkdir_exist_ok_regular_file:
  "mkdir_exist_ok name root = Inl e \<longleftrightarrow>
     (\<exists>c. map_of root name = Some (RegularFile c)) \<and> e = FileExistsError name"
  by (auto simp: mkdir_exist_ok_def split: option.splits node.splits)

lemma write_file_after_mkdir:
  assumes "mkdir_exist_ok name root = Inr root1"
  shows "\<exists>root2. write_file name path c root1 = Inr root2"
  using mkdir_exist_ok_directory [OF assms] by (auto simp: write_file_def)

text \<open>
  The three ways a call can go: the library is unknown; a regular file is in
  the way of the package directory; or the directory and the metadata are
  written and the outcome is that of the checks on the file.
\<close>

lemma install_library_cases:
  "(find (\<lambda>d. uuid d = library_id) downloadable = None
      \<and> install_library self downloadable root library_id file
          = (Inl (HTTPException 404 (LibraryNotFound library_id)), root))
   \<or> (\<exists>d c. find (\<lambda>d. uuid d = library_id) downloadable = Some d
      \<and> map_of root library_id = Some (RegularFile c)
      \<and> install_library self downloadable root library_id file
          = (Inl (FileExistsError library_id), root))
   \<or> (\<exists>d root1 root2. find (\<lambda>d. uuid d = library_id) downloadable = Some d
      \<and> mkdir_exist_ok library_id root = Inr root1
      \<and> write_file library_id INFO_FILE (JsonText (dict d)) root1 = Inr root2
      \<and> install_library self downloadable root library_id file
          = (case validate_file self library_id file of
               Some e \<Rightarrow> (Inl e, root2)
             | None \<Rightarrow> (Inr library_id, extractall library_id (members file) root2)))"
proof (cases "find (\<lambda>d. uuid d = library_id) downloadable")
  case None
  then show ?thesis by (simp add: install_library_def)
next
  case (Some d)
  show ?thesis
  proof (cases "mkdir_exist_ok library_id root")
    case (Inl e)
    then obtain c where "map_of root library_id = Some (RegularFile c)"
      and "e = FileExistsError library_id"
      by (auto simp: mkdir_exist_ok_regular_file)
    with Some Inl show ?thesis by (simp add: install_library_def)
  next
    case (Inr root1)
    from write_file_after_mkdir [OF Inr]
    obtain root2 where "write_file library_id INFO_FILE (JsonText (dict d)) root1 = Inr root2"
      by blast
    with Some Inr show ?thesis by (simp add: install_library_def)
  qed
qed

lemma prepared_state:
  assumes "mkdir_exist_ok name root = Inr root1"
      and "write_file name path c root1 = Inr root2"
  shows "lookup_file root2 name path = Some c"
    and "q \<noteq> path \<Longrightarrow> lookup_file root2 name q = lookup_file root name q"
    and "n \<noteq> name \<Longrightarrow> map_of root2 n = map_of root n"
  using assms
  by (auto simp: mkdir_exist_ok_def write_file_def lookup_file_def update_conv' map_add_def
      split: option.splits node.splits)

text \<open>Every error of the checks on the file is an \<^verbatim>\<open>HTTPException\<close> with status 422.\<close>

lemma validate_file_status:
  assumes "validate_file self library_id file = Some e"
  shows "\<exists>dt. e = HTTPException 422 dt"
  using assms
  by (auto simp: validate_file_def read_manifest_def check_manifest_def VvlibManifest_validate_def
      split: if_splits option.splits content.splits sum.splits)

subsection \<open>Unknown libraries\<close>

text \<open>
  Claim C5.  When no descriptor of the catalog has the uuid \<open>library_id\<close>,
  \<^verbatim>\<open>install_library\<close> raises the 404 error whatever the uploaded file is, and
  the installation root is as it was before the call: no package directory and
  no metadata document has been created.
\<close>

theorem install_unknown_library_not_found:
  assumes "\<forall>d \<in> set downloadable. uuid d \<noteq> library_id"
  shows "install_library self downloadable root library_id file
           = (Inl (HTTPException 404 (LibraryNotFound library_id)), root)"
proof -
  from assms have "find (\<lambda>d. uuid d = library_id) downloadable = None"
    by (simp add: find_None_iff)
  then show ?thesis by (simp add: install_library_def)
qed

theorem install_unknown_library_not_found_witness:
  "install_library demo_manager demo_catalog demo_root ''lib-9''
       (demo_file (demo_manifest ''1.2.3'' ''1.0.0'' ''engine-A''))
     = (Inl (HTTPException 404 (LibraryNotFound ''lib-9'')), demo_root)
   \<and> map_of demo_root ''lib-9'' = None"
proof -
  have h: "\<forall>d \<in> set demo_catalog. uuid d \<noteq> ''lib-9''"
    by (simp add: demo_catalog_def)
  show ?thesis
    using install_unknown_library_not_found [OF h, of demo_manager demo_root]
    by (simp add: demo_root_def)
qed

subsection \<open>A rejected file leaves the metadata and nothing else\<close>

text \<open>
  Claim C1.  When \<^verbatim>\<open>install_library\<close> fails with a 422 error, the error is the
  one of the checks on the uploaded file (structure, self-test, manifest
  presence and decoding, schema, \<open>version\<close>, \<open>manifest_version\<close>,
  \<open>engine_uuid\<close>); the library is in the catalog and the package directory
  holds the metadata document written from its descriptor; every other path of
  the package directory holds what it held before the call, so no member of
  the archive has been extracted; and the other entries of the root are
  untouched.  Extraction therefore happens only when every check has passed.
\<close>

theorem failed_validation_extracts_nothing:
  assumes "install_library self downloadable root library_id file
             = (Inl (HTTPException 422 dt), root')"
  shows "validate_file self library_id file = Some (HTTPException 422 dt)
     \<and> (\<exists>d. find (\<lambda>d. uuid d = library_id) downloadable = Some d
          \<and> lookup_file root' library_id INFO_FILE = Some (JsonText (dict d)))
     \<and> (\<forall>path. path \<noteq> INFO_FILE
          \<longrightarrow> lookup_file root' library_id path = lookup_file root library_id path)
     \<and> (\<forall>name. name \<noteq> library_id \<longrightarrow> map_of root' name = map_of root name)"
proof -
  from install_library_cases [of library_id downloadable self root "file"] assms
  obtain d root1 root2 where found: "find (\<lambda>d. uuid d = library_id) downloadable = Some d"
    and mk: "mkdir_exist_ok library_id root = Inr root1"
    and wr: "write_file library_id INFO_FILE (JsonText (dict d)) root1 = Inr root2"
    and res: "(Inl (HTTPException 422 dt), root')
                = (case validate_file self library_id file of
                     Some e \<Rightarrow> (Inl e, root2)
                   | None \<Rightarrow> (Inr library_id, extractall library_id (members file) root2))"
    by auto
  from res have v: "validate_file self library_id file = Some (HTTPException 422 dt)"
    and r: "root' = root2"
    by (auto split: option.splits)
  from prepared_state [OF mk wr] found v r show ?thesis by simp
qed

theorem failed_validation_extracts_nothing_witness:
  "install_library demo_manager demo_catalog demo_root ''lib-1''
       ((demo_file (demo_manifest ''1.2.3'' ''1.0.0'' ''engine-A''))\<lparr>testzip := Some ''model.bin''\<rparr>)
     = (Inl (HTTPException 422 (InvalidFile ''lib-1'')),
        demo_root @ [(''lib-1'', Directory True
           [''metas.json'' \<mapsto> JsonText (JDict [(''uuid'', JStr ''lib-1''), (''name'', JStr ''Demo'')])])])
   \<and> lookup_file (demo_root @ [(''lib-1'', Directory True
           [''metas.json'' \<mapsto> JsonText (JDict [(''uuid'', JStr ''lib-1''), (''name'', JStr ''Demo'')])])])
        ''lib-1'' ''model.bin'' = None"
proof -
  have h: "install_library demo_manager demo_catalog demo_root ''lib-1''
       ((demo_file (demo_manifest ''1.2.3'' ''1.0.0'' ''engine-A''))\<lparr>testzip := Some ''model.bin''\<rparr>)
     = (Inl (HTTPException 422 (InvalidFile ''lib-1'')),
        demo_root @ [(''lib-1'', Directory True
           [''metas.json'' \<mapsto> JsonText (JDict [(''uuid'', JStr ''lib-1''), (''name'', JStr ''Demo'')])])])"
    by (simp add: demo_defs manager_defs)
  from failed_validation_extracts_nothing [OF h]
  have "lookup_file (demo_root @ [(''lib-1'', Directory True
           [''metas.json'' \<mapsto> JsonText (JDict [(''uuid'', JStr ''lib-1''), (''name'', JStr ''Demo'')])])])
        ''lib-1'' ''model.bin'' = lookup_file demo_root ''lib-1'' ''model.bin''"
    by (simp add: INFO_FILE_def)
  with h show ?thesis by (simp add: demo_root_def lookup_file_def)
qed

subsection \<open>Outcomes of the checks\<close>

lemma install_library_outcome:
  assumes "library_id \<in> uuid ` set downloadable"
      and "\<forall>c. map_of root library_id \<noteq> Some (RegularFile c)"
  shows "fst (install_library self downloadable root library_id file)
           = (case validate_file self library_id file of
                Some e \<Rightarrow> Inl e
              | None \<Rightarrow> Inr library_id)"
proof -
  from assms(1) have "find (\<lambda>d. uuid d = library_id) downloadable \<noteq> None"
    by (auto simp: find_None_iff)
  with assms(2) install_library_cases [of library_id downloadable self root "file"]
  show ?thesis by (auto split: option.splits)
qed

lemma core_greater_Version_gt:
  assumes "major s < major v
           \<or> major v = major s \<and> (minor s < minor v \<or> minor v = minor s \<and> patch s < patch v)"
  shows "Version_gt v s"
  using assms by (auto simp: Version_gt_def Version_compare_def cmp_core_def cmp_nat_def Let_def)

lemma nat_cmp_empty: "nat_cmp [] [] = 0"
  by (simp add: nat_cmp_def to_part_def cmp_nat_def)

lemma Version_gt_zero:
  assumes "major s = 0" and "minor s = 0" and "patch s = 0" and "prerelease s = None"
  shows "Version_gt v s \<longleftrightarrow> \<not> (major v = 0 \<and> minor v = 0 \<and> patch v = 0)"
proof (cases "major v = 0 \<and> minor v = 0 \<and> patch v = 0")
  case False
  with assms have "major s < major v
           \<or> major v = major s \<and> (minor s < minor v \<or> minor v = minor s \<and> patch s < patch v)"
    by auto
  from core_greater_Version_gt [OF this] False show ?thesis by simp
next
  case True
  with assms have core: "cmp_core v s = 0"
    by (simp add: cmp_core_def cmp_nat_def)
  have "\<not> 0 < Version_compare v s"
  proof (cases "falsy (prerelease v)")
    case True
    then have "nat_cmp (or_empty (prerelease v)) (or_empty (prerelease s)) = 0"
      using assms(4) by (simp add: falsy_def or_empty_def nat_cmp_empty)
    with core show ?thesis by (simp add: Version_compare_def)
  next
    case False
    with core assms(4) show ?thesis
      by (simp add: Version_compare_def Let_def falsy_def or_empty_def)
  qed
  with True show ?thesis by (simp add: Version_gt_def)
qed

lemma LibraryManager_init_None:
  "LibraryManager_init None brand_name name euuid =
     Inr \<lparr>supported_vvlib_version =
            \<lparr>major = 0, minor = 0, patch = 0, prerelease = None, build = None\<rparr>,
          engine_brand_name = brand_name, engine_name = name, engine_uuid = euuid\<rparr>"
  by (simp add: LibraryManager_init_def semver_defs)

lemma check_manifest_well_formed:
  assumes "get_str manifest ''version'' = Some ver" and "Version_is_valid ver"
      and "get_str manifest ''manifest_version'' = Some mv" and "Version_parse mv = Some v"
      and "get_str manifest ''engine_uuid'' = Some eu"
  shows "check_manifest self library_id manifest =
           (if Version_gt v (supported_vvlib_version self)
            then Some (HTTPException 422 (Unsupported library_id))
            else if eu \<noteq> engine_uuid self
            then Some (HTTPException 422 (WrongEngine library_id (engine_name self)))
            else None)"
  using assms by (simp add: check_manifest_def VvlibManifest_validate_def)

lemma validate_file_sound_archive:
  assumes "is_zipfile file" and "testzip file = None"
      and "zf_read file ''vvlib_manifest.json'' = Some (JsonText manifest)"
  shows "validate_file self library_id file = check_manifest self library_id manifest"
  using assms by (simp add: validate_file_def read_manifest_def)

subsection \<open>Malformed and corrupt archives\<close>

text \<open>
  Claim C6 says that a file that is not an archive and an archive that fails
  its self-test are reported as two distinct errors.  They are not: at the
  input below the two calls return the same result, error included.
\<close>

theorem malformed_and_corrupt_indistinguishable:
  "install_library demo_manager demo_catalog demo_root ''lib-1''
       ((demo_file (demo_manifest ''1.2.3'' ''1.0.0'' ''engine-A''))\<lparr>is_zipfile := False\<rparr>)
     = install_library demo_manager demo_catalog demo_root ''lib-1''
       ((demo_file (demo_manifest ''1.2.3'' ''1.0.0'' ''engine-A''))\<lparr>testzip := Some ''model.bin''\<rparr>)"
  by (simp add: demo_defs manager_defs)

text \<open>
  Claim C6, amended.  For a library of the catalog whose directory can be
  created, a file that is not an archive and an archive that fails its
  self-test are both reported as the 422 error whose reason says that the
  library is an invalid file; the reason names the library, not the check.
\<close>

theorem malformed_and_corrupt_share_one_error:
  assumes "library_id \<in> uuid ` set downloadable"
      and "\<forall>c. map_of root library_id \<noteq> Some (RegularFile c)"
      and "\<not> is_zipfile file \<or> testzip file \<noteq> None"
  shows "fst (install_library self downloadable root library_id file)
           = Inl (HTTPException 422 (InvalidFile library_id))"
  using assms(3) install_library_outcome [OF assms(1,2), of self "file"]
  by (auto simp: validate_file_def)

theorem malformed_and_corrupt_share_one_error_witness:
  "fst (install_library demo_manager demo_catalog demo_root ''lib-1''
          ((demo_file (demo_manifest ''1.2.3'' ''1.0.0'' ''engine-A''))\<lparr>is_zipfile := False\<rparr>))
     = Inl (HTTPException 422 (InvalidFile ''lib-1''))
   \<and> fst (install_library demo_manager demo_catalog demo_root ''lib-1''
          ((demo_file (demo_manifest ''1.2.3'' ''1.0.0'' ''engine-A''))\<lparr>testzip := Some ''model.bin''\<rparr>))
     = Inl (HTTPException 422 (InvalidFile ''lib-1''))"
proof -
  have a: "''lib-1'' \<in> uuid ` set demo_catalog"
    by (simp add: demo_catalog_def)
  have b: "\<forall>c. map_of demo_root ''lib-1'' \<noteq> Some (RegularFile c)"
    by (simp add: demo_root_def)
  show ?thesis
    using malformed_and_corrupt_share_one_error [OF a b, of
        "(demo_file (demo_manifest ''1.2.3'' ''1.0.0'' ''engine-A''))\<lparr>is_zipfile := False\<rparr>"
        demo_manager]
      malformed_and_corrupt_share_one_error [OF a b, of
        "(demo_file (demo_manifest ''1.2.3'' ''1.0.0'' ''engine-A''))\<lparr>testzip := Some ''model.bin''\<rparr>"
        demo_manager]
    by (simp add: demo_file_def)
qed

subsection \<open>The manifest-version gate\<close>

text \<open>
  Claim C3.  For a library of the catalog whose directory can be created and
  an archive whose manifest has a \<open>manifest_version\<close> that parses and is
  greater than the supported version by major, then minor, then patch, each
  compared as a number, \<^verbatim>\<open>install_library\<close> fails with a 422 error; when the
  archive is sound and the other fields of the manifest are well-formed, the
  error is the one of the gate (the library is not supported).
\<close>

theorem newer_manifest_version_rejected:
  assumes "library_id \<in> uuid ` set downloadable"
      and "\<forall>c. map_of root library_id \<noteq> Some (RegularFile c)"
      and "zf_read file ''vvlib_manifest.json'' = Some (JsonText manifest)"
      and "get_str manifest ''manifest_version'' = Some mv"
      and "Version_parse mv = Some v"
      and "major (supported_vvlib_version self) < major v
           \<or> major v = major (supported_vvlib_version self)
             \<and> (minor (supported_vvlib_version self) < minor v
                \<or> minor v = minor (supported_vvlib_version self)
                  \<and> patch (supported_vvlib_version self) < patch v)"
  shows "(\<exists>dt. fst (install_library self downloadable root library_id file)
                 = Inl (HTTPException 422 dt))
     \<and> (is_zipfile file \<and> testzip file = None
          \<and> (\<exists>ver eu. get_str manifest ''version'' = Some ver \<and> Version_is_valid ver
                \<and> get_str manifest ''engine_uuid'' = Some eu)
        \<longrightarrow> fst (install_library self downloadable root library_id file)
              = Inl (HTTPException 422 (Unsupported library_id)))"
proof -
  note out = install_library_outcome [OF assms(1,2), of self "file"]
  from core_greater_Version_gt [OF assms(6)]
  have gt: "Version_gt v (supported_vvlib_version self)" .
  have rejected: "validate_file self library_id file \<noteq> None"
    using assms(3,4,5) gt
    by (auto simp: validate_file_def read_manifest_def check_manifest_def
        split: if_splits option.splits prod.splits)
  then obtain e where e: "validate_file self library_id file = Some e" by blast
  from validate_file_status [OF e] obtain dt where "e = HTTPException 422 dt" by blast
  with e out have first: "\<exists>dt. fst (install_library self downloadable root library_id file)
                 = Inl (HTTPException 422 dt)"
    by simp
  have second: "fst (install_library self downloadable root library_id file)
              = Inl (HTTPException 422 (Unsupported library_id))"
    if "is_zipfile file" and "testzip file = None"
      and "get_str manifest ''version'' = Some ver" and "Version_is_valid ver"
      and "get_str manifest ''engine_uuid'' = Some eu" for ver eu
    using out gt validate_file_sound_archive [OF that(1,2) assms(3), of self library_id]
      check_manifest_well_formed [OF that(3,4) assms(4,5) that(5), of self library_id]
    by simp
  from first second show ?thesis by blast
qed

theorem newer_manifest_version_rejected_witness:
  "fst (install_library demo_manager demo_catalog demo_root ''lib-1''
          (demo_file (demo_manifest ''1.2.3'' ''2.0.0'' ''engine-A'')))
     = Inl (HTTPException 422 (Unsupported ''lib-1''))"
proof -
  let ?v = "\<lparr>major = 2, minor = 0, patch = 0, prerelease = None, build = None\<rparr>"
  have a: "''lib-1'' \<in> uuid ` set demo_catalog"
    by (simp add: demo_catalog_def)
  have b: "\<forall>c. map_of demo_root ''lib-1'' \<noteq> Some (RegularFile c)"
    by (simp add: demo_root_def)
  have c: "zf_read (demo_file (demo_manifest ''1.2.3'' ''2.0.0'' ''engine-A'')) ''vvlib_manifest.json''
             = Some (JsonText (demo_manifest ''1.2.3'' ''2.0.0'' ''engine-A''))"
    by (simp add: zf_read_def demo_file_def)
  have d: "get_str (demo_manifest ''1.2.3'' ''2.0.0'' ''engine-A'') ''manifest_version'' = Some ''2.0.0''"
    by (simp add: get_str_def demo_manifest_def)
  have e: "Version_parse ''2.0.0'' = Some ?v"
    by (simp add: semver_defs)
  have f: "major (supported_vvlib_version demo_manager) < major ?v
           \<or> major ?v = major (supported_vvlib_version demo_manager)
             \<and> (minor (supported_vvlib_version demo_manager) < minor ?v
                \<or> minor ?v = minor (supported_vvlib_version demo_manager)
                  \<and> patch (supported_vvlib_version demo_manager) < patch ?v)"
    by (simp add: demo_manager_def)
  have g: "is_zipfile (demo_file (demo_manifest ''1.2.3'' ''2.0.0'' ''engine-A''))
        \<and> testzip (demo_file (demo_manifest ''1.2.3'' ''2.0.0'' ''engine-A'')) = None
        \<and> (\<exists>ver eu. get_str (demo_manifest ''1.2.3'' ''2.0.0'' ''engine-A'') ''version'' = Some ver
              \<and> Version_is_valid ver
              \<and> get_str (demo_manifest ''1.2.3'' ''2.0.0'' ''engine-A'') ''engine_uuid'' = Some eu)"
    by (simp add: demo_file_def demo_manifest_def get_str_def semver_defs)
  from newer_manifest_version_rejected [OF a b c d e f] g show ?thesis by blast
qed

subsection \<open>The engine check\<close>

text \<open>
  Claim C4.  For a library of the catalog whose directory can be created and
  an archive whose manifest names an \<open>engine_uuid\<close> that differs, as a string,
  from the manager's, \<^verbatim>\<open>install_library\<close> fails with a 422 error whatever the
  \<open>version\<close> and \<open>manifest_version\<close> of the manifest are; when the archive is
  sound and the manifest passes the version checks, the error is the one of
  the engine check (the library is not for this engine).
\<close>

theorem foreign_engine_rejected:
  assumes "library_id \<in> uuid ` set downloadable"
      and "\<forall>c. map_of root library_id \<noteq> Some (RegularFile c)"
      and "zf_read file ''vvlib_manifest.json'' = Some (JsonText manifest)"
      and "get_str manifest ''engine_uuid'' = Some eu"
      and "eu \<noteq> engine_uuid self"
  shows "(\<exists>dt. fst (install_library self downloadable root library_id file)
                 = Inl (HTTPException 422 dt))
     \<and> (is_zipfile file \<and> testzip file = None
          \<and> (\<exists>ver mv v. get_str manifest ''version'' = Some ver \<and> Version_is_valid ver
                \<and> get_str manifest ''manifest_version'' = Some mv \<and> Version_parse mv = Some v
                \<and> \<not> Version_gt v (supported_vvlib_version self))
        \<longrightarrow> fst (install_library self downloadable root library_id file)
              = Inl (HTTPException 422 (WrongEngine library_id (engine_name self))))"
proof -
  note out = install_library_outcome [OF assms(1,2), of self "file"]
  have rejected: "validate_file self library_id file \<noteq> None"
    using assms(3,4,5)
    by (auto simp: validate_file_def read_manifest_def check_manifest_def
        split: if_splits option.splits prod.splits)
  then obtain e where e: "validate_file self library_id file = Some e" by blast
  from validate_file_status [OF e] obtain dt where "e = HTTPException 422 dt" by blast
  with e out have first: "\<exists>dt. fst (install_library self downloadable root library_id file)
                 = Inl (HTTPException 422 dt)"
    by simp
  have second: "fst (install_library self downloadable root library_id file)
              = Inl (HTTPException 422 (WrongEngine library_id (engine_name self)))"
    if "is_zipfile file" and "testzip file = None"
      and "get_str manifest ''version'' = Some ver" and "Version_is_valid ver"
      and "get_str manifest ''manifest_version'' = Some mv" and "Version_parse mv = Some v"
      and "\<not> Version_gt v (supported_vvlib_version self)" for ver mv v
    using out that(7) assms(5) validate_file_sound_archive [OF that(1,2) assms(3), of self library_id]
      check_manifest_well_formed [OF that(3,4,5,6) assms(4), of self library_id]
    by simp
  from first second show ?thesis by blast
qed

theorem foreign_engine_rejected_witness:
  "fst (install_library demo_manager demo_catalog demo_root ''lib-1''
          (demo_file (demo_manifest ''1.2.3'' ''1.0.0'' ''engine-B'')))
     = Inl (HTTPException 422 (WrongEngine ''lib-1'' ''engine''))
   \<and> (\<exists>dt. fst (install_library demo_manager demo_catalog demo_root ''lib-1''
          (demo_file (demo_manifest ''not a version'' ''9.9.9'' ''engine-B'')))
     = Inl (HTTPException 422 dt))"
proof -
  let ?v = "\<lparr>major = 1, minor = 0, patch = 0, prerelease = None, build = None\<rparr>"
  let ?m = "demo_manifest ''1.2.3'' ''1.0.0'' ''engine-B''"
  let ?n = "demo_manifest ''not a version'' ''9.9.9'' ''engine-B''"
  have a: "''lib-1'' \<in> uuid ` set demo_catalog"
    by (simp add: demo_catalog_def)
  have b: "\<forall>c. map_of demo_root ''lib-1'' \<noteq> Some (RegularFile c)"
    by (simp add: demo_root_def)
  have c: "zf_read (demo_file ?m) ''vvlib_manifest.json'' = Some (JsonText ?m)"
    and c': "zf_read (demo_file ?n) ''vvlib_manifest.json'' = Some (JsonText ?n)"
    by (simp_all add: zf_read_def demo_file_def)
  have d: "get_str ?m ''engine_uuid'' = Some ''engine-B''"
    and d': "get_str ?n ''engine_uuid'' = Some ''engine-B''"
    by (simp_all add: get_str_def demo_manifest_def)
  have e: "''engine-B'' \<noteq> engine_uuid demo_manager"
    by (simp add: demo_manager_def)
  have p: "Version_parse ''1.0.0'' = Some ?v"
    by (simp add: semver_defs)
  have g: "is_zipfile (demo_file ?m) \<and> testzip (demo_file ?m) = None
        \<and> (\<exists>ver mv v. get_str ?m ''version'' = Some ver \<and> Version_is_valid ver
              \<and> get_str ?m ''manifest_version'' = Some mv \<and> Version_parse mv = Some v
              \<and> \<not> Version_gt v (supported_vvlib_version demo_manager))"
    using p by (simp add: demo_file_def demo_manifest_def get_str_def demo_manager_def semver_defs)
  from foreign_engine_rejected [OF a b c d e] g foreign_engine_rejected [OF a b c' d' e]
  show ?thesis by (simp add: demo_manager_def)
qed

subsection \<open>No supported version configured\<close>

text \<open>
  Claim C2 says that a manager made without a supported version rejects every
  manifest whose \<open>manifest_version\<close> is not exactly 0.0.0.  The manager made
  with \<open>None\<close> supports 0.0.0, and it installs the archive below, whose
  \<open>manifest_version\<close> is \<^verbatim>\<open>0.0.0-alpha\<close>: a pre-release of 0.0.0 is not
  greater than 0.0.0.
\<close>

theorem unconfigured_version_admits_prerelease:
  "LibraryManager_init None ''brand'' ''engine'' ''engine-A''
     = Inr (demo_manager\<lparr>supported_vvlib_version :=
              \<lparr>major = 0, minor = 0, patch = 0, prerelease = None, build = None\<rparr>\<rparr>)
   \<and> get_str (demo_manifest ''1.2.3'' ''0.0.0-alpha'' ''engine-A'') ''manifest_version''
       = Some ''0.0.0-alpha''
   \<and> fst (install_library
            (demo_manager\<lparr>supported_vvlib_version :=
              \<lparr>major = 0, minor = 0, patch = 0, prerelease = None, build = None\<rparr>\<rparr>)
            demo_catalog demo_root ''lib-1''
            (demo_file (demo_manifest ''1.2.3'' ''0.0.0-alpha'' ''engine-A'')))
       = Inr ''lib-1''"
  by (simp add: LibraryManager_init_None demo_defs manager_defs semver_defs)

text \<open>
  Claim C2, amended.  A manager made without a supported version supports the
  version that \<^verbatim>\<open>"0.0.0"\<close> parses to.  For a manifest that reaches the
  manifest-version gate (library in the catalog, directory created, sound
  archive, valid \<open>version\<close>, \<open>manifest_version\<close> that parses), the call fails
  with the gate's 422 error exactly when major, minor and patch of the
  \<open>manifest_version\<close> are not all 0; when they are all 0, with or without a
  pre-release or build part, and the engine matches, the library is installed.
\<close>

theorem unconfigured_version_gate:
  assumes "LibraryManager_init None brand_name name euuid = Inr self"
      and "library_id \<in> uuid ` set downloadable"
      and "\<forall>c. map_of root library_id \<noteq> Some (RegularFile c)"
      and "is_zipfile file" and "testzip file = None"
      and "zf_read file ''vvlib_manifest.json'' = Some (JsonText manifest)"
      and "get_str manifest ''version'' = Some ver" and "Version_is_valid ver"
      and "get_str manifest ''manifest_version'' = Some mv" and "Version_parse mv = Some v"
      and "get_str manifest ''engine_uuid'' = Some eu"
  shows "Some (supported_vvlib_version self) = Version_parse ''0.0.0''
     \<and> (fst (install_library self downloadable root library_id file)
           = Inl (HTTPException 422 (Unsupported library_id))
         \<longleftrightarrow> \<not> (major v = 0 \<and> minor v = 0 \<and> patch v = 0))
     \<and> (major v = 0 \<and> minor v = 0 \<and> patch v = 0 \<and> eu = euuid
         \<longrightarrow> fst (install_library self downloadable root library_id file) = Inr library_id)"
proof -
  from assms(1) have self: "self = \<lparr>supported_vvlib_version =
            \<lparr>major = 0, minor = 0, patch = 0, prerelease = None, build = None\<rparr>,
          engine_brand_name = brand_name, engine_name = name, engine_uuid = euuid\<rparr>"
    by (simp add: LibraryManager_init_None)
  then have zero: "Some (supported_vvlib_version self) = Version_parse ''0.0.0''"
    by (simp add: semver_defs)
  have gt: "Version_gt v (supported_vvlib_version self)
              \<longleftrightarrow> \<not> (major v = 0 \<and> minor v = 0 \<and> patch v = 0)"
    by (rule Version_gt_zero) (simp_all add: self)
  have "fst (install_library self downloadable root library_id file)
          = (if Version_gt v (supported_vvlib_version self)
             then Inl (HTTPException 422 (Unsupported library_id))
             else if eu \<noteq> engine_uuid self
             then Inl (HTTPException 422 (WrongEngine library_id (engine_name self)))
             else Inr library_id)"
    using install_library_outcome [OF assms(2,3), of self "file"]
      validate_file_sound_archive [OF assms(4,5,6), of self library_id]
      check_manifest_well_formed [OF assms(7,8,9,10,11), of self library_id]
    by simp
  with zero gt show ?thesis by (simp add: self)
qed

theorem unconfigured_version_gate_witness:
  "fst (install_library
          (demo_manager\<lparr>supported_vvlib_version :=
              \<lparr>major = 0, minor = 0, patch = 0, prerelease = None, build = None\<rparr>\<rparr>)
          demo_catalog demo_root ''lib-1''
          (demo_file (demo_manifest ''1.2.3'' ''0.0.1'' ''engine-A'')))
     = Inl (HTTPException 422 (Unsupported ''lib-1''))
   \<and> fst (install_library
          (demo_manager\<lparr>supported_vvlib_version :=
              \<lparr>major = 0, minor = 0, patch = 0, prerelease = None, build = None\<rparr>\<rparr>)
          demo_catalog demo_root ''lib-1''
          (demo_file (demo_manifest ''1.2.3'' ''0.0.0+build.7'' ''engine-A'')))
     = Inr ''lib-1''"
proof -
  let ?self = "demo_manager\<lparr>supported_vvlib_version :=
              \<lparr>major = 0, minor = 0, patch = 0, prerelease = None, build = None\<rparr>\<rparr>"
  let ?m = "demo_manifest ''1.2.3'' ''0.0.1'' ''engine-A''"
  let ?n = "demo_manifest ''1.2.3'' ''0.0.0+build.7'' ''engine-A''"
  let ?v = "\<lparr>major = 0, minor = 0, patch = 1, prerelease = None, build = None\<rparr>"
  let ?w = "\<lparr>major = 0, minor = 0, patch = 0, prerelease = None, build = Some ''build.7''\<rparr>"
  have i: "LibraryManager_init None ''brand'' ''engine'' ''engine-A'' = Inr ?self"
    by (simp add: LibraryManager_init_None demo_manager_def)
  have a: "''lib-1'' \<in> uuid ` set demo_catalog"
    by (simp add: demo_catalog_def)
  have b: "\<forall>c. map_of demo_root ''lib-1'' \<noteq> Some (RegularFile c)"
    by (simp add: demo_root_def)
  have z: "is_zipfile (demo_file ?m)" "is_zipfile (demo_file ?n)"
    and t: "testzip (demo_file ?m) = None" "testzip (demo_file ?n) = None"
    by (simp_all add: demo_file_def)
  have c: "zf_read (demo_file ?m) ''vvlib_manifest.json'' = Some (JsonText ?m)"
    and c': "zf_read (demo_file ?n) ''vvlib_manifest.json'' = Some (JsonText ?n)"
    by (simp_all add: zf_read_def demo_file_def)
  have ver: "get_str ?m ''version'' = Some ''1.2.3''" "get_str ?n ''version'' = Some ''1.2.3''"
    and mv: "get_str ?m ''manifest_version'' = Some ''0.0.1''"
    and mv': "get_str ?n ''manifest_version'' = Some ''0.0.0+build.7''"
    and eu: "get_str ?m ''engine_uuid'' = Some ''engine-A''"
      "get_str ?n ''engine_uuid'' = Some ''engine-A''"
    by (simp_all add: get_str_def demo_manifest_def)
  have valid: "Version_is_valid ''1.2.3''"
    by (simp add: semver_defs)
  have p: "Version_parse ''0.0.1'' = Some ?v"
    and p': "Version_parse ''0.0.0+build.7'' = Some ?w"
    by (simp_all add: semver_defs)
  from unconfigured_version_gate [OF i a b z(1) t(1) c ver(1) valid mv p eu(1)]
    unconfigured_version_gate [OF i a b z(2) t(2) c' ver(2) valid mv' p' eu(2)]
  show ?thesis by simp
qed

subsection \<open>The listing\<close>

lemmas listing_defs = installed_libraries_def load_info_def InstalledLibraryInfo_make_def
  INFO_FILE_def uninstall_library_def uninstall_listed_def rmtree_def

lemma load_info_uninstallable:
  assumes "load_info name fs = Inr info"
  shows "uninstallable info"
  using assms
  by (auto simp: load_info_def InstalledLibraryInfo_make_def
      split: option.splits content.splits json.splits if_splits)

lemma scan_libraries_uninstallable:
  assumes "scan_libraries root library = Inr installed"
      and "\<And>k info. library k = Some info \<Longrightarrow> uninstallable info"
      and "installed k = Some info"
  shows "uninstallable info"
  using assms
proof (induction root library arbitrary: installed rule: scan_libraries.induct)
  case (1 library)
  then show ?case by simp
next
  case (2 name c rest library)
  then show ?case by simp
next
  case (3 name del fs rest library)
  from "3.prems"(1) obtain i where li: "load_info name fs = Inr i"
    and rest: "scan_libraries rest (library(name \<mapsto> i)) = Inr installed"
    by (auto split: sum.splits)
  have "\<And>k' info'. (library(name \<mapsto> i)) k' = Some info' \<Longrightarrow> uninstallable info'"
    using "3.prems"(2) load_info_uninstallable [OF li] by (auto split: if_splits)
  from "3.IH" [OF li rest this "3.prems"(3)] show ?case .
qed

lemma load_info_error:
  assumes "load_info name fs = Inl e"
  shows "e = FileNotFoundError (name @ ''/'' @ INFO_FILE)
         \<or> e = JSONDecodeError (name @ ''/'' @ INFO_FILE) \<or> e = TypeError \<or> e = ValidationError"
  using assms
  by (auto simp: load_info_def InstalledLibraryInfo_make_def
      split: option.splits content.splits json.splits if_splits)

lemma scan_libraries_error_origin:
  assumes "scan_libraries root library = Inl e"
  shows "\<exists>name del fs. (name, Directory del fs) \<in> set root \<and> load_info name fs = Inl e"
  using assms
proof (induction root library rule: scan_libraries.induct)
  case (1 library)
  then show ?case by simp
next
  case (2 name c rest library)
  then show ?case by auto
next
  case (3 name del fs rest library)
  show ?case
  proof (cases "load_info name fs")
    case (Inl e')
    with "3.prems" have "e' = e" by simp
    with Inl show ?thesis by auto
  next
    case (Inr i)
    with "3.prems" have "scan_libraries rest (library(name \<mapsto> i)) = Inl e" by simp
    from "3.IH" [OF Inr this] show ?thesis by auto
  qed
qed

lemma scan_libraries_append:
  "scan_libraries (pre @ rest) library =
     (case scan_libraries pre library of
        Inl e \<Rightarrow> Inl e
      | Inr library' \<Rightarrow> scan_libraries rest library')"
proof (induction pre library rule: scan_libraries.induct)
  case (1 library)
  show ?case by simp
next
  case (2 name c pre library)
  then show ?case by simp
next
  case (3 name del fs pre library)
  show ?case
  proof (cases "load_info name fs")
    case (Inl e)
    then show ?thesis by simp
  next
    case (Inr i)
    from "3.IH" [OF Inr]
    have "scan_libraries (pre @ rest) (library(name \<mapsto> i)) =
            (case scan_libraries pre (library(name \<mapsto> i)) of
               Inl e \<Rightarrow> Inl e
             | Inr library' \<Rightarrow> scan_libraries rest library')" .
    with Inr show ?thesis by simp
  qed
qed

lemma scan_libraries_fails:
  assumes "(name, Directory del fs) \<in> set root" and "load_info name fs = Inl e"
  shows "\<exists>e'. scan_libraries root library = Inl e'"
  using assms
proof (induction root library rule: scan_libraries.induct)
  case (1 library)
  then show ?case by simp
next
  case (2 name' c rest library)
  then show ?case by auto
next
  case (3 name' del' fs' rest library)
  show ?case
  proof (cases "load_info name' fs'")
    case (Inl e')
    then show ?thesis by simp
  next
    case (Inr i)
    with "3.prems" have "(name, Directory del fs) \<in> set rest" by auto
    from "3.IH" [OF Inr this "3.prems"(2)]
    obtain e' where "scan_libraries rest (library(name' \<mapsto> i)) = Inl e'" by blast
    with Inr show ?thesis by simp
  qed
qed

text \<open>
  Claim C8.  When the root has an immediate subdirectory whose \<^verbatim>\<open>metas.json\<close>
  is missing or does not decode, \<^verbatim>\<open>installed_libraries\<close> returns no
  dictionary: it raises the error of loading a subdirectory, the first one the
  scan meets that cannot be loaded.  When everything the scan visits before
  the subdirectory loads, the error is that subdirectory's own:
  \<^verbatim>\<open>FileNotFoundError\<close> for a missing document, a decoding error otherwise,
  with the path of its \<^verbatim>\<open>metas.json\<close>.
\<close>

theorem unreadable_metadata_fails_listing:
  assumes "(name, Directory del fs) \<in> set root"
      and "\<forall>info. fs INFO_FILE \<noteq> Some (JsonText info)"
  shows "(\<exists>e name' del' fs'. installed_libraries root = Inl e
            \<and> (name', Directory del' fs') \<in> set root \<and> load_info name' fs' = Inl e)
     \<and> (\<forall>pre post library. root = pre @ (name, Directory del fs) # post
            \<and> scan_libraries pre Map.empty = Inr library
          \<longrightarrow> installed_libraries root
                = Inl (if fs INFO_FILE = None
                       then FileNotFoundError (name @ ''/'' @ INFO_FILE)
                       else JSONDecodeError (name @ ''/'' @ INFO_FILE)))"
proof -
  let ?e = "if fs INFO_FILE = None
            then FileNotFoundError (name @ ''/'' @ INFO_FILE)
            else JSONDecodeError (name @ ''/'' @ INFO_FILE)"
  from assms(2) have unreadable: "load_info name fs = Inl ?e"
    by (auto simp: load_info_def split: option.splits content.splits)
  from scan_libraries_fails [OF assms(1) unreadable]
  obtain e where e: "installed_libraries root = Inl e"
    by (auto simp: installed_libraries_def)
  then have "\<exists>name' del' fs'. (name', Directory del' fs') \<in> set root \<and> load_info name' fs' = Inl e"
    using scan_libraries_error_origin [of root Map.empty e]
    by (simp add: installed_libraries_def)
  with e have first: "\<exists>e name' del' fs'. installed_libraries root = Inl e
            \<and> (name', Directory del' fs') \<in> set root \<and> load_info name' fs' = Inl e"
    by blast
  have second: "installed_libraries root = Inl ?e"
    if "root = pre @ (name, Directory del fs) # post"
      and "scan_libraries pre Map.empty = Inr library" for pre post library
    using that unreadable by (simp add: installed_libraries_def scan_libraries_append)
  from first second show ?thesis by blast
qed

theorem unreadable_metadata_fails_listing_witness:
  "installed_libraries (demo_root @ [(''lib-2'', Directory True Map.empty)])
     = Inl (FileNotFoundError ''lib-2/metas.json'')"
proof -
  let ?root = "demo_root @ [(''lib-2'', Directory True Map.empty)]"
  have a: "(''lib-2'', Directory True Map.empty) \<in> set ?root" by simp
  have b: "\<forall>info. (Map.empty :: string \<rightharpoonup> content) INFO_FILE \<noteq> Some (JsonText info)" by simp
  have c: "?root = demo_root @ (''lib-2'', Directory True Map.empty) # []
        \<and> scan_libraries demo_root Map.empty
           = Inr [''lib-0'' \<mapsto> \<lparr>uuid = ''lib-0'', other_fields = [], uninstallable = True\<rparr>]"
    by (simp add: demo_root_def listing_defs)
  from unreadable_metadata_fails_listing [OF a b] c
  have "installed_libraries ?root
          = Inl (if (Map.empty :: string \<rightharpoonup> content) INFO_FILE = None
                 then FileNotFoundError (''lib-2'' @ ''/'' @ INFO_FILE)
                 else JSONDecodeError (''lib-2'' @ ''/'' @ INFO_FILE))"
    by blast
  then show ?thesis by (simp add: INFO_FILE_def)
qed

subsection \<open>Uninstalling\<close>

text \<open>
  Claim C10.  Every entry of the dictionary that \<^verbatim>\<open>installed_libraries\<close>
  returns has \<open>uninstallable\<close> set, whatever the root holds, and so
  \<^verbatim>\<open>uninstall_library\<close> never raises the 403 error.
\<close>

theorem uninstall_never_forbidden:
  "(\<forall>installed k info. installed_libraries root = Inr installed \<and> installed k = Some info
        \<longrightarrow> uninstallable info)
   \<and> (\<forall>dt. fst (uninstall_library root library_id) \<noteq> Inl (HTTPException 403 dt))"
proof -
  have flag: "uninstallable info"
    if "installed_libraries root = Inr installed" and "installed k = Some info"
    for installed k info
    using scan_libraries_uninstallable [of root Map.empty installed k info] that
    by (simp add: installed_libraries_def)
  have "fst (uninstall_library root library_id) \<noteq> Inl (HTTPException 403 dt)" for dt
  proof (cases "installed_libraries root")
    case (Inl e)
    then obtain name del fs where "load_info name fs = Inl e"
      using scan_libraries_error_origin [of root Map.empty e]
      by (auto simp: installed_libraries_def)
    from load_info_error [OF this] Inl show ?thesis
      by (auto simp: uninstall_library_def)
  next
    case (Inr installed)
    with flag [OF Inr] show ?thesis
      by (auto simp: uninstall_library_def uninstall_listed_def split: option.splits)
  qed
  with flag show ?thesis by blast
qed

theorem uninstall_never_forbidden_witness:
  "installed_libraries demo_root
     = Inr [''lib-0'' \<mapsto> \<lparr>uuid = ''lib-0'', other_fields = [], uninstallable = True\<rparr>]
   \<and> uninstall_library demo_root ''lib-0'' = (Inr (), [])
   \<and> fst (uninstall_library demo_root ''lib-0'') \<noteq> Inl (HTTPException 403 (NotUninstallable ''lib-0''))"
proof -
  have "installed_libraries demo_root
     = Inr [''lib-0'' \<mapsto> \<lparr>uuid = ''lib-0'', other_fields = [], uninstallable = True\<rparr>]"
    by (simp add: demo_root_def listing_defs)
  moreover from this have "uninstall_library demo_root ''lib-0'' = (Inr (), [])"
    by (simp add: demo_root_def uninstall_library_def uninstall_listed_def rmtree_def)
  ultimately show ?thesis
    using uninstall_never_forbidden [of demo_root "''lib-0''"] by blast
qed

lemma scan_libraries_delete:
  assumes "scan_libraries root library = Inr installed"
  shows "scan_libraries (AList.delete k root) (library(k := None)) = Inr (installed(k := None))"
  using assms
proof (induction root library arbitrary: installed rule: scan_libraries.induct)
  case (1 library)
  then show ?case by (simp del: fun_upd_apply)
next
  case (2 name c rest library)
  from "2.prems" have "scan_libraries rest library = Inr installed" by simp
  from "2.IH" [OF this] show ?case by (simp del: fun_upd_apply)
next
  case (3 name del fs rest library)
  from "3.prems" obtain i where li: "load_info name fs = Inr i"
    and rest: "scan_libraries rest (library(name \<mapsto> i)) = Inr installed"
    by (auto split: sum.splits)
  from "3.IH" [OF li rest]
  have ih: "scan_libraries (AList.delete k rest) ((library(name \<mapsto> i))(k := None))
              = Inr (installed(k := None))" .
  show ?case
  proof (cases "name = k")
    case True
    then have "(library(name \<mapsto> i))(k := None) = library(k := None)" by simp
    with ih True show ?thesis by (simp del: fun_upd_apply)
  next
    case False
    then have "(library(name \<mapsto> i))(k := None) = (library(k := None))(name \<mapsto> i)"
      by (simp add: fun_upd_twist)
    with ih False li show ?thesis by (simp del: fun_upd_apply)
  qed
qed

lemma rmtree_removes:
  assumes "rmtree name root = Some root'"
  shows "root' = AList.delete name root" and "map_of root' name = None"
  using assms
  by (auto simp: rmtree_def delete_conv' split: option.splits node.splits bool.splits if_splits)

text \<open>
  Claim C7.  With the dictionary that the listing returned at the start of the
  call, \<^verbatim>\<open>uninstall_library\<close> raises the 404 error exactly when \<open>library_id\<close>
  is not a key of it.  For a listed entry whose \<open>uninstallable\<close> is false it
  raises the 403 error and leaves the root, and so the package directory, as
  it was.  For a listed entry that may be removed and whose removal succeeds
  it returns normally, the package directory is gone from the root, and a
  listing taken afterwards is the earlier one without \<open>library_id\<close>.  The
  body of the operation is stated for any dictionary; the last part ties it to
  the operation itself.
\<close>

theorem uninstall_outcomes:
  "((\<exists>dt. fst (uninstall_listed installed root library_id) = Inl (HTTPException 404 dt))
      \<longleftrightarrow> installed library_id = None)
   \<and> (\<forall>info. installed library_id = Some info \<and> \<not> uninstallable info
        \<longrightarrow> uninstall_listed installed root library_id
              = (Inl (HTTPException 403 (NotUninstallable library_id)), root))
   \<and> (\<forall>info root'. installed library_id = Some info \<and> uninstallable info
          \<and> rmtree library_id root = Some root'
        \<longrightarrow> uninstall_listed installed root library_id = (Inr (), root')
            \<and> map_of root' library_id = None
            \<and> (installed_libraries root = Inr installed
                 \<longrightarrow> installed_libraries root' = Inr (installed(library_id := None))))
   \<and> (installed_libraries root = Inr installed
        \<longrightarrow> uninstall_library root library_id = uninstall_listed installed root library_id)"
proof -
  have absent: "(\<exists>dt. fst (uninstall_listed installed root library_id) = Inl (HTTPException 404 dt))
      \<longleftrightarrow> installed library_id = None"
    by (auto simp: uninstall_listed_def split: option.splits)
  have forbidden: "uninstall_listed installed root library_id
              = (Inl (HTTPException 403 (NotUninstallable library_id)), root)"
    if "installed library_id = Some info" and "\<not> uninstallable info" for info
    using that by (simp add: uninstall_listed_def)
  have removed: "uninstall_listed installed root library_id = (Inr (), root')
            \<and> map_of root' library_id = None
            \<and> (installed_libraries root = Inr installed
                 \<longrightarrow> installed_libraries root' = Inr (installed(library_id := None)))"
    if "installed library_id = Some info" and "uninstallable info"
      and rm: "rmtree library_id root = Some root'" for info root'
  proof -
    have "installed_libraries root' = Inr (installed(library_id := None))"
      if "installed_libraries root = Inr installed"
      using scan_libraries_delete [of root Map.empty installed library_id] that
        rmtree_removes(1) [OF rm]
      by (simp add: installed_libraries_def)
    with that rmtree_removes(2) [OF rm] show ?thesis
      by (simp add: uninstall_listed_def)
  qed
  have entry: "uninstall_library root library_id = uninstall_listed installed root library_id"
    if "installed_libraries root = Inr installed"
    using that by (simp add: uninstall_library_def)
  from absent forbidden removed entry show ?thesis by blast
qed

theorem uninstall_outcomes_witness:
  "uninstall_library demo_root ''lib-9'' = (Inl (HTTPException 404 (NotInstalled ''lib-9'')), demo_root)
   \<and> uninstall_listed [''lib-0'' \<mapsto> \<lparr>uuid = ''lib-0'', other_fields = [], uninstallable = False\<rparr>]
         demo_root ''lib-0''
       = (Inl (HTTPException 403 (NotUninstallable ''lib-0'')), demo_root)
   \<and> uninstall_library demo_root ''lib-0'' = (Inr (), [])
   \<and> installed_libraries [] = Inr Map.empty"
proof -
  let ?yes = "\<lparr>uuid = ''lib-0'', other_fields = [], uninstallable = True\<rparr>"
  let ?no = "\<lparr>uuid = ''lib-0'', other_fields = [], uninstallable = False\<rparr>"
  have listing: "installed_libraries demo_root = Inr [''lib-0'' \<mapsto> ?yes]"
    by (simp add: demo_root_def listing_defs)
  have rm: "rmtree ''lib-0'' demo_root = Some []"
    by (simp add: demo_root_def rmtree_def)
  note absent = uninstall_outcomes [of "[''lib-0'' \<mapsto> ?yes]" demo_root "''lib-9''"]
  note forbidden = uninstall_outcomes [of "[''lib-0'' \<mapsto> ?no]" demo_root "''lib-0''"]
  note removed = uninstall_outcomes [of "[''lib-0'' \<mapsto> ?yes]" demo_root "''lib-0''"]
  have a: "uninstall_library demo_root ''lib-9'' = (Inl (HTTPException 404 (NotInstalled ''lib-9'')), demo_root)"
  proof -
    from absent have "\<exists>dt. fst (uninstall_listed [''lib-0'' \<mapsto> ?yes] demo_root ''lib-9'')
                        = Inl (HTTPException 404 dt)"
      by simp
    moreover from absent listing
    have "uninstall_library demo_root ''lib-9'' = uninstall_listed [''lib-0'' \<mapsto> ?yes] demo_root ''lib-9''"
      by blast
    ultimately show ?thesis by (auto simp: uninstall_listed_def)
  qed
  have b: "uninstall_listed [''lib-0'' \<mapsto> ?no] demo_root ''lib-0''
       = (Inl (HTTPException 403 (NotUninstallable ''lib-0'')), demo_root)"
    using forbidden by simp
  have c: "uninstall_library demo_root ''lib-0'' = (Inr (), [])
           \<and> installed_libraries [] = Inr Map.empty"
    using removed listing rm by simp
  from a b c show ?thesis by blast
qed

subsection \<open>Installing twice\<close>

text \<open>Extraction adds the members to the directory, a later member over an earlier one.\<close>

lemma extract_members_map_add:
  "extract_members fs ms = fs ++ map_of (rev ms)"
proof (induction ms arbitrary: fs)
  case Nil
  show ?case by (simp add: extract_members_def)
next
  case (Cons m ms)
  obtain p c where m: "m = (p, c)" by (cases m)
  have "extract_members fs (m # ms) = extract_members (fs(p \<mapsto> c)) ms"
    by (simp add: extract_members_def m)
  also have "\<dots> = fs(p \<mapsto> c) ++ map_of (rev ms)"
    by (rule Cons.IH)
  also have "\<dots> = fs ++ map_of (rev (m # ms))"
    by (auto simp: m map_add_def fun_eq_iff split: option.splits)
  finally show ?case .
qed

lemma extract_members_again:
  "extract_members ((extract_members (fs(path \<mapsto> c)) ms)(path \<mapsto> c)) ms
     = extract_members (fs(path \<mapsto> c)) ms"
  by (auto simp: extract_members_map_add map_add_def fun_eq_iff split: option.splits)

text \<open>
  Claim C9.  When \<^verbatim>\<open>install_library\<close> has installed a library, the same call
  on the root it left (same manager, catalog, library and file) succeeds again
  with the same path and leaves the root exactly as it found it: the metadata
  document and every extracted file are what they were after the first call.
  The directory step of the second call finds the directory and changes
  nothing, and a root whose entries have distinct names still has distinct
  names.
\<close>

theorem install_twice_same_state:
  assumes "install_library self downloadable root library_id file = (Inr path, root')"
  shows "install_library self downloadable root' library_id file = (Inr path, root')
     \<and> mkdir_exist_ok library_id root' = Inr root'
     \<and> (distinct (map fst root) \<longrightarrow> distinct (map fst root'))"
proof -
  from install_library_cases [of library_id downloadable self root "file"] assms
  obtain d root1 root2 where found: "find (\<lambda>d. uuid d = library_id) downloadable = Some d"
    and mk: "mkdir_exist_ok library_id root = Inr root1"
    and wr: "write_file library_id INFO_FILE (JsonText (dict d)) root1 = Inr root2"
    and res: "(Inr path, root')
                = (case validate_file self library_id file of
                     Some e \<Rightarrow> (Inl e, root2)
                   | None \<Rightarrow> (Inr library_id, extractall library_id (members file) root2))"
    by auto
  from res have valid: "validate_file self library_id file = None"
    and path: "path = library_id"
    and root': "root' = extractall library_id (members file) root2"
    by (auto split: option.splits)
  from mkdir_exist_ok_directory [OF mk]
  obtain del fs where dir1: "map_of root1 library_id = Some (Directory del fs)" by blast
  let ?c = "JsonText (dict d)"
  let ?fs2 = "fs(INFO_FILE \<mapsto> ?c)"
  let ?fs' = "extract_members ?fs2 (members file)"
  from wr dir1 have root2: "root2 = AList.update library_id (Directory del ?fs2) root1"
    by (simp add: write_file_def)
  then have dir2: "map_of root2 library_id = Some (Directory del ?fs2)"
    by (simp add: update_conv')
  with root' have root'_eq: "root' = AList.update library_id (Directory del ?fs') root2"
    by (simp add: extractall_def)
  then have dir': "map_of root' library_id = Some (Directory del ?fs')"
    by (simp add: update_conv')
  then have mk': "mkdir_exist_ok library_id root' = Inr root'"
    by (simp add: mkdir_exist_ok_def)
  from dir' have wr': "write_file library_id INFO_FILE ?c root'
                         = Inr (AList.update library_id (Directory del (?fs'(INFO_FILE \<mapsto> ?c))) root')"
    by (simp add: write_file_def)
  have "extractall library_id (members file)
          (AList.update library_id (Directory del (?fs'(INFO_FILE \<mapsto> ?c))) root')
        = AList.update library_id (Directory del ?fs') root'"
    by (simp add: extractall_def update_conv' extract_members_again)
  also from dir' have "\<dots> = root'"
    by (rule update_triv)
  finally have again: "extractall library_id (members file)
          (AList.update library_id (Directory del (?fs'(INFO_FILE \<mapsto> ?c))) root') = root'" .
  have second: "install_library self downloadable root' library_id file = (Inr path, root')"
    using found mk' wr' valid again path by (simp add: install_library_def)
  have "distinct (map fst root')" if "distinct (map fst root)"
  proof -
    from mk that have "distinct (map fst root1)"
      by (auto simp: mkdir_exist_ok_def map_of_eq_None_iff split: option.splits node.splits)
    then show ?thesis
      by (simp add: root'_eq root2 distinct_update)
  qed
  with second mk' show ?thesis by blast
qed

theorem install_twice_same_state_witness:
  "install_library demo_manager demo_catalog demo_root ''lib-1''
       (demo_file (demo_manifest ''1.2.3'' ''1.0.0'' ''engine-A''))
     = (Inr ''lib-1'',
        demo_root @ [(''lib-1'', Directory True
           [''metas.json'' \<mapsto> JsonText (JDict [(''uuid'', JStr ''lib-1''), (''name'', JStr ''Demo'')]),
            ''vvlib_manifest.json'' \<mapsto> JsonText (demo_manifest ''1.2.3'' ''1.0.0'' ''engine-A''),
            ''model.bin'' \<mapsto> OtherBytes ''weights''])])
   \<and> install_library demo_manager demo_catalog
        (demo_root @ [(''lib-1'', Directory True
           [''metas.json'' \<mapsto> JsonText (JDict [(''uuid'', JStr ''lib-1''), (''name'', JStr ''Demo'')]),
            ''vvlib_manifest.json'' \<mapsto> JsonText (demo_manifest ''1.2.3'' ''1.0.0'' ''engine-A''),
            ''model.bin'' \<mapsto> OtherBytes ''weights''])])
        ''lib-1'' (demo_file (demo_manifest ''1.2.3'' ''1.0.0'' ''engine-A''))
     = (Inr ''lib-1'',
        demo_root @ [(''lib-1'', Directory True
           [''metas.json'' \<mapsto> JsonText (JDict [(''uuid'', JStr ''lib-1''), (''name'', JStr ''Demo'')]),
            ''vvlib_manifest.json'' \<mapsto> JsonText (demo_manifest ''1.2.3'' ''1.0.0'' ''engine-A''),
            ''model.bin'' \<mapsto> OtherBytes ''weights''])])"
proof -
  have first: "install_library demo_manager demo_catalog demo_root ''lib-1''
       (demo_file (demo_manifest ''1.2.3'' ''1.0.0'' ''engine-A''))
     = (Inr ''lib-1'',
        demo_root @ [(''lib-1'', Directory True
           [''metas.json'' \<mapsto> JsonText (JDict [(''uuid'', JStr ''lib-1''), (''name'', JStr ''Demo'')]),
            ''vvlib_manifest.json'' \<mapsto> JsonText (demo_manifest ''1.2.3'' ''1.0.0'' ''engine-A''),
            ''model.bin'' \<mapsto> OtherBytes ''weights''])])"
    by (simp add: demo_defs manager_defs semver_defs)
  from install_twice_same_state [OF first] first show ?thesis by blast
qed

end
